theory Spec2Isabelle
  imports Complex_Main
begin

section \<open>Backtest of the 15-minute BTC up/down markets (backtest\_btc\_15m.py)\<close>

text \<open>
  The module holds the configuration constants, \<open>iso_to_ts\<close>, two HTTP wrappers
  (\<open>fetch_btc15m_markets\<close>, \<open>prices\<close>), \<open>resolved_outcome\<close> and \<open>run\<close>.
  The embedding follows the code function by function. Exceptions are values of a sum
  type (\<open>Inl\<close> the exception), the HTTP wrappers are parameters of \<open>run\<close>, and the
  mutable locals of \<open>run\<close> (\<open>trades\<close>, \<open>skipped\<close>) are a state record that
  each loop iteration returns updated.

  Numbers: a tick's time is an \<open>int\<close>. Probabilities, prices and PnL are Python
  floats (IEEE 754 binary64). A float is modelled by the rational number it denotes, and
  the constants of the module by the numbers their literals denote: \<open>0.02\<close> is not
  \<open>2/100\<close> but the binary64 number nearest to it. Comparisons of floats are exact.
  Every float operation of lines 150, 160 and 163 is the exact operation followed by the
  rounding \<open>fl\<close> to the nearest binary64 number, ties to the even one. The special
  values (NaN, infinities) and overflow are not modelled; the sums and quotients of the
  summary are left exact, and what is proved of the summary does not depend on their
  rounding.
\<close>

subsection \<open>Binary64 rounding\<close>

text \<open>Rounding to the nearest integer, a tie to the even one.\<close>

definition round_half_even :: "rat \<Rightarrow> int" where
  "round_half_even q =
     (let f = \<lfloor>q\<rfloor>; d = q - of_int f
      in if d < 1 / 2 then f else if 1 / 2 < d then f + 1 else if even f then f else f + 1)"

text \<open>
  The exponent of a number that is not negative: the greatest \<open>e\<close> from \<open>-1022\<close> to
  \<open>1023\<close> with \<open>2^e \<le> x\<close>, found from the top, and \<open>-1022\<close> for the
  subnormal numbers and zero.
\<close>

fun find_exp :: "nat \<Rightarrow> rat \<Rightarrow> int" where
  "find_exp 0 x = - 1022"
| "find_exp (Suc n) x =
     (if 2 powi (int (Suc n) - 1022) \<le> x then int (Suc n) - 1022 else find_exp n x)"

definition binade :: "rat \<Rightarrow> int" where
  "binade x = find_exp 2045 \<bar>x\<bar>"

text \<open>
  A binary64 number with exponent \<open>e\<close> is a multiple of \<open>2^(e - 52)\<close>, its 53-bit
  significand being the multiplier. \<open>fl x\<close> is the multiple nearest to \<open>x\<close>.
\<close>

definition fl :: "rat \<Rightarrow> rat" where
  "fl x = (let u = 2 powi (binade x - 52) in of_int (round_half_even (x / u)) * u)"

subsection \<open>Configuration and data\<close>

text \<open>
  The floats that the literals \<open>0.97\<close> (line 7), \<open>0.02\<close> (line 8) and \<open>0.9\<close>
  (line 74) denote: \<open>fl (97 / 100)\<close>, \<open>fl (2 / 100)\<close> and \<open>fl (9 / 10)\<close>, written
  out (lemmas \<open>THRESHOLD_literal\<close>, \<open>FEE_literal\<close>, \<open>CONFIDENCE_BOUND_literal\<close>).
\<close>

definition THRESHOLD :: rat where
  "THRESHOLD = 4368491638549381 / 4503599627370496"

definition FEE :: rat where
  "FEE = 5764607523034235 / 288230376151711744"

definition CONFIDENCE_BOUND :: rat where
  "CONFIDENCE_BOUND = 8106479329266893 / 9007199254740992"

datatype py_error =
    KeyError | IndexError | ValueError | JSONDecodeError | TypeError
  | HTTPError | ZeroDivisionError

text \<open>
  An element of the parsed \<open>outcomes\<close> list: a string, or JSON \<open>null\<close>, which
  Python reads as \<open>None\<close>.
\<close>

datatype label = Null | Str string

text \<open>One element of a price history: the dict \<open>{"t": ..., "p": ...}\<close>.\<close>

record tick =
  tick_t :: int
  tick_p :: rat

text \<open>The dict \<open>trigger\<close> of \<open>run\<close>, with its four keys.\<close>

record trigger =
  side :: label
  side_idx :: nat
  price :: rat
  time :: int

text \<open>\<open>xs[i]\<close> for an index that is not negative: IndexError out of range.\<close>

definition index :: "'a list \<Rightarrow> nat \<Rightarrow> py_error + 'a" where
  "index xs i = (if i < length xs then Inr (xs ! i) else Inl IndexError)"

subsection \<open>The trigger loops of run (lines 128 to 139)\<close>

text \<open>
  The inner loop \<open>for p in hist\<close>: the first tick with \<open>p["p"] >= THRESHOLD\<close> ends
  the loop (\<open>break\<close>); it replaces the trigger when there is none yet or when its time
  is strictly smaller than the trigger's.
\<close>

fun scan_hist :: "label list \<Rightarrow> nat \<Rightarrow> trigger option \<Rightarrow> tick list \<Rightarrow> py_error + trigger option" where
  "scan_hist outs i trg [] = Inr trg"
| "scan_hist outs i trg (p # hist) =
     (if tick_p p \<ge> THRESHOLD then
        (if (case trg of None \<Rightarrow> True | Some tr \<Rightarrow> tick_t p < time tr) then
           (case index outs i of
              Inl e \<Rightarrow> Inl e
            | Inr s \<Rightarrow> Inr (Some \<lparr>side = s, side_idx = i, price = tick_p p, time = tick_t p\<rparr>))
         else Inr trg)
      else scan_hist outs i trg hist)"

text \<open>The outer loop \<open>for side_idx, hist in enumerate(hists)\<close>.\<close>

fun scan_hists :: "label list \<Rightarrow> nat \<Rightarrow> trigger option \<Rightarrow> tick list list \<Rightarrow> py_error + trigger option" where
  "scan_hists outs i trg [] = Inr trg"
| "scan_hists outs i trg (hist # hists) =
     (case scan_hist outs i trg hist of
        Inl e \<Rightarrow> Inl e
      | Inr trg' \<Rightarrow> scan_hists outs (Suc i) trg' hists)"

text \<open>\<open>trigger = None\<close> followed by the two loops.\<close>

definition find_trigger :: "label list \<Rightarrow> tick list list \<Rightarrow> py_error + trigger option" where
  "find_trigger outs hists = scan_hists outs 0 None hists"

text \<open>A side's first qualifying tick: the first one, in the given order, at or above the threshold.\<close>

definition first_hit :: "tick list \<Rightarrow> tick option" where
  "first_hit hist = find (\<lambda>p. tick_p p \<ge> THRESHOLD) hist"

subsection \<open>Market records and their JSON fields\<close>

text \<open>
  A market is the dict the listing endpoint returns. Three of its values are strings
  holding JSON (\<open>clobTokenIds\<close>, \<open>outcomes\<close>, \<open>outcomePrices\<close>); such a field is
  modelled by what reading it gives: the key is missing, \<open>json.loads\<close> raises on the
  value, or it yields a list. An element of \<open>outcomePrices\<close> is modelled by what
  \<open>float\<close> makes of it: \<open>Some q\<close> when it converts to the float \<open>q\<close>,
  \<open>None\<close> when \<open>float\<close> raises.
\<close>

datatype 'a field = Missing | Malformed | Json "'a list"

type_synonym raw_price = "rat option"

record market =
  slug :: string
  closed_flag :: bool
  clobTokenIds :: "string field"
  outcomes :: "label field"
  outcomePrices :: "raw_price field"
  endDate :: "string option"

text \<open>\<open>json.loads(m[key])\<close>: a missing key raises KeyError.\<close>

fun loads_item :: "'a field \<Rightarrow> py_error + 'a list" where
  "loads_item Missing = Inl KeyError"
| "loads_item Malformed = Inl JSONDecodeError"
| "loads_item (Json xs) = Inr xs"

text \<open>\<open>json.loads(m.get(key, "[]"))\<close>: a missing key reads as the empty list.\<close>

fun loads_get :: "'a field \<Rightarrow> py_error + 'a list" where
  "loads_get Missing = Inr []"
| "loads_get Malformed = Inl JSONDecodeError"
| "loads_get (Json xs) = Inr xs"

definition py_float :: "raw_price \<Rightarrow> py_error + rat" where
  "py_float x = (case x of None \<Rightarrow> Inl ValueError | Some q \<Rightarrow> Inr q)"

subsection \<open>iso\_to\_ts (lines 11 to 12)\<close>

text \<open>
  \<open>iso.replace("Z", "+00:00")\<close> replaces every \<open>Z\<close>. The library call
  \<open>int(datetime.fromisoformat(...).timestamp())\<close> is a parameter: it gives the epoch
  seconds, or raises ValueError on a string that is not an ISO-8601 timestamp.
\<close>

definition replace_Z :: "string \<Rightarrow> string" where
  "replace_Z str = concat (map (\<lambda>c. if c = CHR ''Z'' then ''+00:00'' else [c]) str)"

definition iso_to_ts :: "(string \<Rightarrow> py_error + int) \<Rightarrow> string \<Rightarrow> py_error + int" where
  "iso_to_ts fromisoformat str = fromisoformat (replace_Z str)"

subsection \<open>resolved\_outcome (lines 68 to 78)\<close>

text \<open>
  \<open>max(range(len(prices)), key=lambda i: float(prices[i]))\<close>: the keys are computed in
  order, so the first element that does not convert raises; the index kept is replaced
  only by one whose key is strictly greater, so the first maximal index is returned.
\<close>

fun floats :: "raw_price list \<Rightarrow> py_error + rat list" where
  "floats [] = Inr []"
| "floats (x # xs) =
     (case py_float x of
        Inl e \<Rightarrow> Inl e
      | Inr q \<Rightarrow> (case floats xs of Inl e \<Rightarrow> Inl e | Inr qs \<Rightarrow> Inr (q # qs)))"

fun max_from :: "rat list \<Rightarrow> rat \<Rightarrow> nat \<Rightarrow> nat \<Rightarrow> nat" where
  "max_from [] best bi i = bi"
| "max_from (k # ks) best bi i =
     (if best < k then max_from ks k i (Suc i) else max_from ks best bi (Suc i))"

definition py_max_index :: "raw_price list \<Rightarrow> py_error + nat" where
  "py_max_index prices =
     (case floats prices of
        Inl e \<Rightarrow> Inl e
      | Inr [] \<Rightarrow> Inl ValueError
      | Inr (k # ks) \<Rightarrow> Inr (max_from ks k 0 1))"

text \<open>The body of the \<open>try\<close> block, with the value it returns or the exception it raises.\<close>

definition resolved_outcome_try :: "market \<Rightarrow> py_error + label option" where
  "resolved_outcome_try m =
     (case loads_get (outcomes m) of
        Inl e \<Rightarrow> Inl e
      | Inr outs \<Rightarrow>
     (case loads_get (outcomePrices m) of
        Inl e \<Rightarrow> Inl e
      | Inr prices \<Rightarrow>
          if prices \<noteq> [] \<and> outs \<noteq> [] then
            (case py_max_index prices of
               Inl e \<Rightarrow> Inl e
             | Inr i \<Rightarrow>
            (case index prices i of
               Inl e \<Rightarrow> Inl e
             | Inr x \<Rightarrow>
            (case py_float x of
               Inl e \<Rightarrow> Inl e
             | Inr q \<Rightarrow>
                 if q > CONFIDENCE_BOUND then
                   (case index outs i of Inl e \<Rightarrow> Inl e | Inr s \<Rightarrow> Inr (Some s))
                 else Inr None)))
          else Inr None))"

text \<open>The bare \<open>except: pass\<close> turns every exception into the final \<open>return None\<close>.\<close>

definition resolved_outcome :: "market \<Rightarrow> label option" where
  "resolved_outcome m = (case resolved_outcome_try m of Inl e \<Rightarrow> None | Inr r \<Rightarrow> r)"

subsection \<open>Settlement and the trade record (lines 146 to 165)\<close>

text \<open>
  Line 150, with the fee as an argument; \<open>run\<close> passes the constant \<open>FEE\<close>.
  \<open>1 - price - FEE\<close> is two float subtractions, \<open>-(price + FEE)\<close> a float addition and
  a negation, which is exact.
\<close>

definition pnl_of :: "rat \<Rightarrow> bool \<Rightarrow> rat \<Rightarrow> rat" where
  "pnl_of fee wn p = (if wn then fl (fl (1 - p) - fee) else - fl (p + fee))"

text \<open>
  The Python value of \<open>winner\<close>: \<open>None\<close> when \<open>resolved_outcome\<close> found no winner,
  and the label otherwise, which is \<open>None\<close> again when that label is \<open>null\<close>.
\<close>

definition py_value :: "label option \<Rightarrow> label" where
  "py_value w = (case w of None \<Rightarrow> Null | Some l \<Rightarrow> l)"

text \<open>Lines 149 and 150: \<open>won = trigger["side"] == winner\<close> compares the two values.\<close>

definition settle :: "trigger \<Rightarrow> label option \<Rightarrow> bool \<times> rat" where
  "settle trg w = (let wn = (side trg = py_value w) in (wn, pnl_of FEE wn (price trg)))"

text \<open>
  \<open>round(x, 4)\<close> on a float: the exact value of \<open>x\<close> is rounded to the nearest multiple
  of \<open>1/10000\<close>, a tie to the even one, and the result is the float nearest to that.
\<close>

definition py_round4 :: "rat \<Rightarrow> rat" where
  "py_round4 x = fl (of_int (round_half_even (x * 10000)) / 10000)"

record trade =
  trade_slug :: string
  trade_side :: label
  trade_price :: rat
  winner :: label
  won :: bool
  pnl :: rat
  tte_secs :: int

definition make_trade :: "market \<Rightarrow> trigger \<Rightarrow> int \<Rightarrow> trade" where
  "make_trade m trg end_ts =
     (let w = resolved_outcome m;
          (wn, pl) = settle trg w;
          secs_to_expiry = end_ts - time trg
      in \<lparr>trade_slug = slug m, trade_side = side trg, trade_price = py_round4 (price trg),
          winner = py_value w, won = wn, pnl = py_round4 pl, tte_secs = secs_to_expiry\<rparr>)"

subsection \<open>The market loop of run (lines 90 to 165)\<close>

text \<open>
  The locals \<open>trades\<close> and \<open>skipped\<close>, and the requests \<open>prices\<close> has sent so far
  (token, start, end), which is how the model records that a market was or was not
  fetched.
\<close>

record run_state =
  trades :: "trade list"
  skipped :: nat
  requests :: "(string \<times> int \<times> int) list"

type_synonym prices_fn = "string \<Rightarrow> int \<Rightarrow> int \<Rightarrow> py_error + tick list"

text \<open>
  Lines 117 to 120: one request per token, in order. \<open>prices\<close> raises on a failed
  request (\<open>raise_for_status\<close>, a timeout), and nothing catches it.
\<close>

fun fetch_hists :: "prices_fn \<Rightarrow> string list \<Rightarrow> int \<Rightarrow> int \<Rightarrow> py_error + tick list list" where
  "fetch_hists prices [] start_ts end_ts = Inr []"
| "fetch_hists prices (tid # tids) start_ts end_ts =
     (case prices tid start_ts end_ts of
        Inl e \<Rightarrow> Inl e
      | Inr h \<Rightarrow>
          (case fetch_hists prices tids start_ts end_ts of
             Inl e \<Rightarrow> Inl e
           | Inr hs \<Rightarrow> Inr (h # hs)))"

text \<open>Lines 96 to 98, the body of the \<open>try\<close>: both fields parsed, or the exception.\<close>

definition parse_sides :: "market \<Rightarrow> py_error + (string list \<times> label list)" where
  "parse_sides m =
     (case loads_item (clobTokenIds m) of
        Inl e \<Rightarrow> Inl e
      | Inr token_ids \<Rightarrow>
          (case loads_item (outcomes m) of
             Inl e \<Rightarrow> Inl e
           | Inr outs \<Rightarrow> Inr (token_ids, outs)))"

text \<open>
  One iteration of \<open>for m in closed\<close>. \<open>Inr\<close> is the state after the iteration
  (after \<open>continue\<close> or after the append); \<open>Inl\<close> is an exception that leaves
  \<open>run\<close>. Only the parsing of lines 96 to 98 stands inside a \<open>try\<close>.
\<close>

definition process_market ::
  "prices_fn \<Rightarrow> (string \<Rightarrow> py_error + int) \<Rightarrow> run_state \<Rightarrow> market \<Rightarrow> py_error + run_state" where
  "process_market prices fromisoformat st m =
     (case parse_sides m of
        Inl e \<Rightarrow> Inr (st\<lparr>skipped := skipped st + 1\<rparr>)
      | Inr (token_ids, outs) \<Rightarrow>
          if length token_ids \<noteq> 2 \<or> length outs \<noteq> 2 then Inr (st\<lparr>skipped := skipped st + 1\<rparr>)
          else
            (case endDate m of
               None \<Rightarrow> Inl KeyError
             | Some str \<Rightarrow>
            (case iso_to_ts fromisoformat str of
               Inl e \<Rightarrow> Inl e
             | Inr end_ts \<Rightarrow>
                 let start_ts = end_ts - 900 in
            (case fetch_hists prices token_ids start_ts end_ts of
               Inl e \<Rightarrow> Inl e
             | Inr hists \<Rightarrow>
                 let st' = st\<lparr>requests := requests st @ map (\<lambda>tid. (tid, start_ts, end_ts)) token_ids\<rparr> in
            (case find_trigger outs hists of
               Inl e \<Rightarrow> Inl e
             | Inr None \<Rightarrow> Inr st'
             | Inr (Some trg) \<Rightarrow> Inr (st'\<lparr>trades := trades st' @ [make_trade m trg end_ts]\<rparr>))))))"

fun run_loop ::
  "prices_fn \<Rightarrow> (string \<Rightarrow> py_error + int) \<Rightarrow> run_state \<Rightarrow> market list \<Rightarrow> py_error + run_state" where
  "run_loop prices fromisoformat st [] = Inr st"
| "run_loop prices fromisoformat st (m # ms) =
     (case process_market prices fromisoformat st m of
        Inl e \<Rightarrow> Inl e
      | Inr st' \<Rightarrow> run_loop prices fromisoformat st' ms)"

subsection \<open>The summary of run (lines 167 to 180)\<close>

text \<open>The numbers the summary prints, before formatting. \<open>/\<close> raises on a zero divisor.\<close>

record summary =
  markets_scanned :: nat
  skipped_bad :: nat
  n_trades :: nat
  n_wins :: nat
  win_rate :: rat
  avg_pnl :: rat
  total_pnl :: "rat option"
  avg_tte :: "rat option"

definition py_div :: "rat \<Rightarrow> rat \<Rightarrow> py_error + rat" where
  "py_div a b = (if b = 0 then Inl ZeroDivisionError else Inr (a / b))"

definition wins_of :: "trade list \<Rightarrow> trade list" where
  "wins_of ts = filter (\<lambda>t. pnl t > 0) ts"

definition summarize :: "nat \<Rightarrow> run_state \<Rightarrow> py_error + summary" where
  "summarize n_closed st =
     (let wins = wins_of (trades st); n = length (trades st) in
      case py_div (of_nat (length wins)) (of_nat (max 1 n)) of
        Inl e \<Rightarrow> Inl e
      | Inr r \<Rightarrow>
     (case py_div (sum_list (map pnl (trades st))) (of_nat (max 1 n)) of
        Inl e \<Rightarrow> Inl e
      | Inr a \<Rightarrow>
     (case (if trades st \<noteq> [] then
              (case py_div (of_int (sum_list (map tte_secs (trades st)))) (of_nat (length (trades st))) of
                 Inl e \<Rightarrow> Inl e
               | Inr d \<Rightarrow> Inr (Some (sum_list (map pnl (trades st))), Some d))
            else Inr (None, None)) of
        Inl e \<Rightarrow> Inl e
      | Inr (tot, tte) \<Rightarrow>
          Inr \<lparr>markets_scanned = n_closed, skipped_bad = skipped st, n_trades = n,
               n_wins = length wins, win_rate = r * 100, avg_pnl = a,
               total_pnl = tot, avg_tte = tte\<rparr>)))"

text \<open>
  \<open>run\<close>: the listing (the result of \<open>fetch_btc15m_markets()\<close>, or the exception it
  raised), the early return on an empty listing (\<open>Inr None\<close>: nothing is summarised),
  the loop over the closed markets, the summary.
\<close>

definition run ::
  "py_error + market list \<Rightarrow> prices_fn \<Rightarrow> (string \<Rightarrow> py_error + int)
     \<Rightarrow> py_error + (run_state \<times> summary) option" where
  "run listing prices fromisoformat =
     (case listing of
        Inl e \<Rightarrow> Inl e
      | Inr mkts \<Rightarrow>
          if mkts = [] then Inr None
          else
            let closed_mkts = filter closed_flag mkts in
            (case run_loop prices fromisoformat \<lparr>trades = [], skipped = 0, requests = []\<rparr> closed_mkts of
               Inl e \<Rightarrow> Inl e
             | Inr st \<Rightarrow>
                 (case summarize (length closed_mkts) st of
                    Inl e \<Rightarrow> Inl e
                  | Inr s \<Rightarrow> Inr (Some (st, s)))))"

subsection \<open>The first index of the maximum\<close>

text \<open>
  What the resolution is stated against: the position of the first element equal to the
  greatest element of a list that is not empty.
\<close>

definition first_max :: "rat list \<Rightarrow> nat" where
  "first_max ks = length (takeWhile (\<lambda>k. k \<noteq> Max (set ks)) ks)"

subsection \<open>Properties of the binary64 rounding\<close>

lemma rhe_cases:
  "round_half_even q = \<lfloor>q\<rfloor> \<or> round_half_even q = \<lfloor>q\<rfloor> + 1"
  by (simp add: round_half_even_def Let_def)

lemma rhe_of_int: "round_half_even (of_int n) = n"
  by (simp add: round_half_even_def)

lemma rhe_mono: "q \<le> r \<Longrightarrow> round_half_even q \<le> round_half_even r"
proof -
  assume qr: "q \<le> r"
  then have fl: "\<lfloor>q\<rfloor> \<le> \<lfloor>r\<rfloor>" by (rule floor_mono)
  show ?thesis
  proof (cases "\<lfloor>q\<rfloor> = \<lfloor>r\<rfloor>")
    case True
    with qr have "q - of_int \<lfloor>q\<rfloor> \<le> r - of_int \<lfloor>r\<rfloor>" by simp
    with True show ?thesis
      unfolding round_half_even_def Let_def by (auto split: if_splits)
  next
    case False
    with fl have "\<lfloor>q\<rfloor> + 1 \<le> \<lfloor>r\<rfloor>" by linarith
    moreover have "round_half_even q \<le> \<lfloor>q\<rfloor> + 1" using rhe_cases [of q] by linarith
    moreover have "\<lfloor>r\<rfloor> \<le> round_half_even r" using rhe_cases [of r] by linarith
    ultimately show ?thesis by linarith
  qed
qed

lemma rhe_le_int: "q \<le> of_int n \<Longrightarrow> round_half_even q \<le> n"
  using rhe_mono [of q "of_int n"] by (simp add: rhe_of_int)

lemma rhe_ge_int: "of_int n \<le> q \<Longrightarrow> n \<le> round_half_even q"
  using rhe_mono [of "of_int n" q] by (simp add: rhe_of_int)

lemma rhe_minus: "round_half_even (- q) = - round_half_even q"
proof (cases "q = of_int \<lfloor>q\<rfloor>")
  case True
  then obtain n where "q = of_int n" ..
  then have "- q = of_int (- n)" by simp
  then show ?thesis unfolding \<open>q = of_int n\<close> by (metis rhe_of_int)
next
  case False
  then have lt: "of_int \<lfloor>q\<rfloor> < q" by (metis of_int_floor_le order_le_less)
  have up: "q < of_int \<lfloor>q\<rfloor> + 1" by linarith
  have fm: "\<lfloor>- q\<rfloor> = - \<lfloor>q\<rfloor> - 1"
    using lt up by (intro floor_unique) auto
  show ?thesis
    unfolding round_half_even_def Let_def fm using lt up
    by (auto split: if_splits)
qed

lemma find_exp_bounds: "- 1022 \<le> find_exp n x \<and> find_exp n x \<le> int n - 1022"
  by (induction n) auto

lemma find_exp_lower: "find_exp n x \<noteq> - 1022 \<Longrightarrow> 2 powi (find_exp n x) \<le> x"
  by (induction n) (auto split: if_splits)

lemma find_exp_upper: "find_exp n x < int n - 1022 \<Longrightarrow> x < 2 powi (find_exp n x + 1)"
proof (induction n)
  case 0
  then show ?case by simp
next
  case (Suc n)
  show ?case
  proof (cases "2 powi (int (Suc n) - 1022) \<le> x")
    case True
    with Suc.prems show ?thesis by simp
  next
    case False
    then have res: "find_exp (Suc n) x = find_exp n x" by simp
    show ?thesis
    proof (cases "find_exp n x < int n - 1022")
      case True
      with Suc.IH res show ?thesis by simp
    next
      case False
      with find_exp_bounds [of n x] have "find_exp n x = int n - 1022" by linarith
      then have eq: "find_exp n x + 1 = int (Suc n) - 1022" by simp
      from \<open>\<not> 2 powi (int (Suc n) - 1022) \<le> x\<close>
      have "x < 2 powi (int (Suc n) - 1022)" by (rule not_le_imp_less)
      then show ?thesis unfolding res eq .
    qed
  qed
qed

lemma find_exp_mono: "x \<le> y \<Longrightarrow> find_exp n x \<le> find_exp n y"
proof (induction n)
  case 0
  then show ?case by simp
next
  case (Suc n)
  show ?case
  proof (cases "2 powi (int (Suc n) - 1022) \<le> x")
    case True
    with Suc.prems have "2 powi (int (Suc n) - 1022) \<le> y" by linarith
    with True show ?thesis by simp
  next
    case False
    note nx = this
    show ?thesis
    proof (cases "2 powi (int (Suc n) - 1022) \<le> y")
      case True
      with nx find_exp_bounds [of n x] show ?thesis by simp
    next
      case False
      with nx Suc show ?thesis by simp
    qed
  qed
qed

lemma find_exp_eqI:
  assumes "- 1022 \<le> e" and "e \<le> int n - 1022" and "e = - 1022 \<or> 2 powi e \<le> x"
    and "x < 2 powi (e + 1)"
  shows "find_exp n x = e"
  using assms
proof (induction n)
  case 0
  then show ?case by simp
next
  case (Suc n)
  show ?case
  proof (cases "2 powi (int (Suc n) - 1022) \<le> x")
    case True
    with Suc.prems(4) have "(2 :: rat) powi (int (Suc n) - 1022) < 2 powi (e + 1)" by linarith
    then have "int (Suc n) - 1022 < e + 1"
      using power_int_increasing [of "e + 1" "int (Suc n) - 1022" "2 :: rat"] by force
    with Suc.prems(2) have "e = int (Suc n) - 1022" by linarith
    with True show ?thesis by simp
  next
    case False
    have "e \<le> int n - 1022"
    proof (rule ccontr)
      assume "\<not> e \<le> int n - 1022"
      with Suc.prems(2) have e: "e = int (Suc n) - 1022" by linarith
      then have "e \<noteq> - 1022" by simp
      with Suc.prems(3) have "2 powi e \<le> x" by simp
      with False e show False by simp
    qed
    with Suc.IH Suc.prems False show ?thesis by simp
  qed
qed

lemma pow2_split53: "(2 :: rat) powi (e + 1) = of_int (2 ^ 53) * 2 powi (e - 52)"
proof -
  have "e + 1 = 53 + (e - 52)" by simp
  then have "(2 :: rat) powi (e + 1) = 2 powi (53 + (e - 52))" by (rule arg_cong)
  also have "\<dots> = 2 powi 53 * 2 powi (e - 52)" by (rule power_int_add) simp
  finally show ?thesis by simp
qed

lemma pow2_split52: "(2 :: rat) powi e = of_int (2 ^ 52) * 2 powi (e - 52)"
proof -
  have "e = 52 + (e - 52)" by simp
  then have "(2 :: rat) powi e = 2 powi (52 + (e - 52))" by (rule arg_cong)
  also have "\<dots> = 2 powi 52 * 2 powi (e - 52)" by (rule power_int_add) simp
  finally show ?thesis by simp
qed

lemma binade_bounds: "- 1022 \<le> binade x \<and> binade x \<le> 1023"
  using find_exp_bounds [of 2045 "\<bar>x\<bar>"] by (simp add: binade_def)

lemma binade_minus: "binade (- x) = binade x"
  by (simp add: binade_def)

lemma fl_minus: "fl (- x) = - fl x"
  by (simp add: fl_def binade_minus rhe_minus Let_def)

lemma fl_0: "fl 0 = 0"
  by (simp add: fl_def round_half_even_def)

lemma fl_nonneg: "0 \<le> x \<Longrightarrow> 0 \<le> fl x"
proof -
  assume "0 \<le> x"
  then have "of_int 0 \<le> x / 2 powi (binade x - 52)" by simp
  then have "0 \<le> round_half_even (x / 2 powi (binade x - 52))" by (rule rhe_ge_int)
  then show ?thesis by (simp add: fl_def Let_def)
qed

lemma fl_mono_nonneg:
  assumes "0 \<le> x" and "x \<le> y"
  shows "fl x \<le> fl y"
proof -
  let ?ex = "binade x" and ?ey = "binade y"
  let ?ux = "(2 :: rat) powi (?ex - 52)" and ?uy = "(2 :: rat) powi (?ey - 52)"
  have ux: "0 < ?ux" and uy: "0 < ?uy" by simp_all
  have le: "?ex \<le> ?ey"
    using assms by (simp add: binade_def find_exp_mono)
  show ?thesis
  proof (cases "?ex = ?ey")
    case True
    have "x / ?ux \<le> y / ?ux" using assms(2) ux by (simp add: divide_right_mono)
    then have "round_half_even (x / ?ux) \<le> round_half_even (y / ?ux)" by (rule rhe_mono)
    then have "(of_int (round_half_even (x / ?ux)) :: rat) * ?ux
        \<le> of_int (round_half_even (y / ?ux)) * ?ux"
      using ux by (simp add: mult_right_mono)
    then show ?thesis unfolding fl_def Let_def True [symmetric] .
  next
    case False
    with le have lt: "?ex < ?ey" by simp
    have "?ex < int 2045 - 1022" using lt binade_bounds [of y] by simp
    then have "\<bar>x\<bar> < 2 powi (?ex + 1)"
      unfolding binade_def by (rule find_exp_upper)
    with assms(1) have "x < 2 powi (?ex + 1)" by simp
    then have "x < of_int (2 ^ 53) * ?ux" by (simp only: pow2_split53)
    then have "x / ?ux \<le> of_int (2 ^ 53)" using ux by (simp add: pos_divide_le_eq)
    then have "round_half_even (x / ?ux) \<le> 2 ^ 53" by (rule rhe_le_int)
    then have "(of_int (round_half_even (x / ?ux)) :: rat) \<le> of_int (2 ^ 53)"
      by (simp only: of_int_le_iff)
    then have "of_int (round_half_even (x / ?ux)) * ?ux \<le> of_int (2 ^ 53) * ?ux"
      using ux by (simp only: mult_right_mono less_imp_le)
    then have A: "fl x \<le> 2 powi (?ex + 1)"
      unfolding fl_def Let_def pow2_split53 .
    have "?ey \<noteq> - 1022" using lt binade_bounds [of x] by simp
    then have "2 powi ?ey \<le> \<bar>y\<bar>"
      unfolding binade_def by (rule find_exp_lower)
    moreover have "0 \<le> y" using assms by simp
    ultimately have "2 powi ?ey \<le> y" by simp
    then have "of_int (2 ^ 52) * ?uy \<le> y" by (simp only: pow2_split52 [symmetric])
    then have "of_int (2 ^ 52) \<le> y / ?uy" using uy by (simp add: pos_le_divide_eq)
    then have "2 ^ 52 \<le> round_half_even (y / ?uy)" by (rule rhe_ge_int)
    then have "(of_int (2 ^ 52) :: rat) \<le> of_int (round_half_even (y / ?uy))"
      by (simp only: of_int_le_iff)
    then have "of_int (2 ^ 52) * ?uy \<le> of_int (round_half_even (y / ?uy)) * ?uy"
      using uy by (simp only: mult_right_mono less_imp_le)
    then have B: "2 powi ?ey \<le> fl y"
      unfolding fl_def Let_def by (simp only: pow2_split52 [symmetric])
    have C: "(2 :: rat) powi (?ex + 1) \<le> 2 powi ?ey"
      using lt by (intro power_int_increasing) simp_all
    from A C B show ?thesis by linarith
  qed
qed

lemma fl_mono: "x \<le> y \<Longrightarrow> fl x \<le> fl y"
proof -
  assume xy: "x \<le> y"
  show ?thesis
  proof (cases "0 \<le> x")
    case True
    then show ?thesis using xy by (rule fl_mono_nonneg)
  next
    case False
    note xneg = this
    show ?thesis
    proof (cases "0 \<le> y")
      case True
      have "0 \<le> fl (- x)" using xneg by (intro fl_nonneg) simp
      then have "fl x \<le> 0" by (simp add: fl_minus)
      moreover have "0 \<le> fl y" using True by (rule fl_nonneg)
      ultimately show ?thesis by simp
    next
      case False
      then have "0 \<le> - y" and "- y \<le> - x" using xy by simp_all
      then have "fl (- y) \<le> fl (- x)" by (rule fl_mono_nonneg)
      then show ?thesis by (simp add: fl_minus)
    qed
  qed
qed

lemma fl_eval:
  assumes "- 1022 \<le> e" and "e \<le> 1023" and "e = - 1022 \<or> 2 powi e \<le> \<bar>x\<bar>"
    and "\<bar>x\<bar> < 2 powi (e + 1)"
  shows "fl x = of_int (round_half_even (x / 2 powi (e - 52))) * 2 powi (e - 52)"
proof -
  have "binade x = e"
    unfolding binade_def using assms by (intro find_exp_eqI) simp_all
  then show ?thesis by (simp add: fl_def Let_def)
qed

lemma floor_numeral_div: "\<lfloor>numeral a / numeral b :: rat\<rfloor> = numeral a div numeral b"
  by (metis floor_divide_of_int_eq of_int_numeral)

lemma floor_neg_numeral_div:
  "\<lfloor>- (numeral a / numeral b) :: rat\<rfloor> = - numeral a div numeral b"
  by (metis floor_divide_of_int_eq of_int_numeral of_int_minus minus_divide_left)

lemmas fl_value = round_half_even_def Let_def floor_numeral_div floor_neg_numeral_div

text \<open>The constants are the floats nearest to their literals.\<close>

lemma THRESHOLD_literal: "THRESHOLD = fl (97 / 100)"
  by (subst fl_eval [of "- 1"]) (simp_all add: fl_value THRESHOLD_def)

lemma FEE_literal: "FEE = fl (2 / 100)"
  by (subst fl_eval [of "- 6"]) (simp_all add: fl_value FEE_def)

lemma CONFIDENCE_BOUND_literal: "CONFIDENCE_BOUND = fl (9 / 10)"
  by (subst fl_eval [of "- 1"]) (simp_all add: fl_value CONFIDENCE_BOUND_def)

subsection \<open>Properties of the trigger loops\<close>

lemma scan_hist_no_hit:
  "first_hit hist = None \<Longrightarrow> scan_hist outs i trg hist = Inr trg"
  by (induction hist) (auto simp: first_hit_def split: if_splits)

lemma scan_hist_hit_fresh:
  "first_hit hist = Some a \<Longrightarrow> i < length outs \<Longrightarrow>
   scan_hist outs i None hist =
     Inr (Some \<lparr>side = outs ! i, side_idx = i, price = tick_p a, time = tick_t a\<rparr>)"
  by (induction hist) (auto simp: first_hit_def index_def split: if_splits)

lemma scan_hist_hit_earlier:
  "first_hit hist = Some a \<Longrightarrow> i < length outs \<Longrightarrow> tick_t a < time tr \<Longrightarrow>
   scan_hist outs i (Some tr) hist =
     Inr (Some \<lparr>side = outs ! i, side_idx = i, price = tick_p a, time = tick_t a\<rparr>)"
  by (induction hist) (auto simp: first_hit_def index_def split: if_splits)

lemma scan_hist_hit_not_earlier:
  "first_hit hist = Some a \<Longrightarrow> \<not> tick_t a < time tr \<Longrightarrow>
   scan_hist outs i (Some tr) hist = Inr (Some tr)"
  by (induction hist) (auto simp: first_hit_def split: if_splits)

lemma first_hit_None_iff:
  "first_hit hist = None \<longleftrightarrow> (\<forall>p \<in> set hist. tick_p p < THRESHOLD)"
  by (auto simp: first_hit_def find_None_iff not_le)

lemma find_trigger_two_sides:
  "find_trigger [o0, o1] [x0, x1] =
    Inr (case first_hit x0 of
           None \<Rightarrow> (case first_hit x1 of None \<Rightarrow> None
              | Some b \<Rightarrow> Some \<lparr>side = o1, side_idx = 1, price = tick_p b, time = tick_t b\<rparr>)
         | Some a \<Rightarrow> (case first_hit x1 of
                None \<Rightarrow> Some \<lparr>side = o0, side_idx = 0, price = tick_p a, time = tick_t a\<rparr>
              | Some b \<Rightarrow> if tick_t b < tick_t a
                  then Some \<lparr>side = o1, side_idx = 1, price = tick_p b, time = tick_t b\<rparr>
                  else Some \<lparr>side = o0, side_idx = 0, price = tick_p a, time = tick_t a\<rparr>))"
proof (cases "first_hit x0")
  case None
  note n0 = this
  show ?thesis
  proof (cases "first_hit x1")
    case None
    with n0 show ?thesis
      by (simp add: find_trigger_def scan_hist_no_hit)
  next
    case (Some b)
    with n0 scan_hist_hit_fresh [OF Some, of "Suc 0" "[o0, o1]"] show ?thesis
      by (simp add: find_trigger_def scan_hist_no_hit)
  qed
next
  case (Some a)
  note s0 = this
  have first: "scan_hist [o0, o1] 0 None x0 =
      Inr (Some \<lparr>side = o0, side_idx = 0, price = tick_p a, time = tick_t a\<rparr>)"
    using scan_hist_hit_fresh [OF s0, of 0 "[o0, o1]"] by simp
  show ?thesis
  proof (cases "first_hit x1")
    case None
    with s0 first show ?thesis
      by (simp add: find_trigger_def scan_hist_no_hit)
  next
    case (Some b)
    show ?thesis
    proof (cases "tick_t b < tick_t a")
      case True
      with s0 Some first
        scan_hist_hit_earlier [OF Some, of "Suc 0" "[o0, o1]"
          "\<lparr>side = o0, side_idx = 0, price = tick_p a, time = tick_t a\<rparr>"]
      show ?thesis by (simp add: find_trigger_def)
    next
      case False
      with s0 Some first
        scan_hist_hit_not_earlier [OF Some, of
          "\<lparr>side = o0, side_idx = 0, price = tick_p a, time = tick_t a\<rparr>" "[o0, o1]" "Suc 0"]
      show ?thesis by (simp add: find_trigger_def)
    qed
  qed
qed

text \<open>
  C1. When side A's first tick at or above the threshold is earlier than side B's, the
  trigger is side A, with that tick's price and time, whether A is listed first or second.
  The ticks need not be ordered by time for this.
\<close>

theorem C1_earlier_side_wins:
  assumes "first_hit hA = Some a" and "first_hit hB = Some b"
    and "tick_t a < tick_t b"
  shows "find_trigger [oA, oB] [hA, hB] =
           Inr (Some \<lparr>side = oA, side_idx = 0, price = tick_p a, time = tick_t a\<rparr>)
       \<and> find_trigger [oB, oA] [hB, hA] =
           Inr (Some \<lparr>side = oA, side_idx = 1, price = tick_p a, time = tick_t a\<rparr>)"
proof
  have first: "scan_hist [oA, oB] 0 None hA =
      Inr (Some \<lparr>side = oA, side_idx = 0, price = tick_p a, time = tick_t a\<rparr>)"
    using scan_hist_hit_fresh [OF assms(1), of 0 "[oA, oB]"] by simp
  have "scan_hist [oA, oB] (Suc 0) (Some \<lparr>side = oA, side_idx = 0, price = tick_p a, time = tick_t a\<rparr>) hB =
      Inr (Some \<lparr>side = oA, side_idx = 0, price = tick_p a, time = tick_t a\<rparr>)"
    using scan_hist_hit_not_earlier [OF assms(2)] assms(3) by simp
  with first show "find_trigger [oA, oB] [hA, hB] =
      Inr (Some \<lparr>side = oA, side_idx = 0, price = tick_p a, time = tick_t a\<rparr>)"
    by (simp add: find_trigger_def)
next
  have first: "scan_hist [oB, oA] 0 None hB =
      Inr (Some \<lparr>side = oB, side_idx = 0, price = tick_p b, time = tick_t b\<rparr>)"
    using scan_hist_hit_fresh [OF assms(2), of 0 "[oB, oA]"] by simp
  have "scan_hist [oB, oA] (Suc 0) (Some \<lparr>side = oB, side_idx = 0, price = tick_p b, time = tick_t b\<rparr>) hA =
      Inr (Some \<lparr>side = oA, side_idx = Suc 0, price = tick_p a, time = tick_t a\<rparr>)"
    using scan_hist_hit_earlier [OF assms(1), of "Suc 0" "[oB, oA]"] assms(3) by simp
  with first show "find_trigger [oB, oA] [hB, hA] =
      Inr (Some \<lparr>side = oA, side_idx = 1, price = tick_p a, time = tick_t a\<rparr>)"
    by (simp add: find_trigger_def)
qed

theorem C1_earlier_side_wins_witness:
  "first_hit [\<lparr>tick_t = 100, tick_p = 975 / 1000\<rparr>] = Some \<lparr>tick_t = 100, tick_p = 975 / 1000\<rparr>
   \<and> first_hit [\<lparr>tick_t = 90, tick_p = 1 / 2\<rparr>, \<lparr>tick_t = 150, tick_p = 99 / 100\<rparr>]
       = Some \<lparr>tick_t = 150, tick_p = 99 / 100\<rparr>
   \<and> (100 :: int) < 150
   \<and> find_trigger [Str ''Down'', Str ''Up'']
         [[\<lparr>tick_t = 100, tick_p = 975 / 1000\<rparr>],
          [\<lparr>tick_t = 90, tick_p = 1 / 2\<rparr>, \<lparr>tick_t = 150, tick_p = 99 / 100\<rparr>]]
       = Inr (Some \<lparr>side = Str ''Down'', side_idx = 0, price = 975 / 1000, time = 100\<rparr>)
   \<and> find_trigger [Str ''Up'', Str ''Down'']
         [[\<lparr>tick_t = 90, tick_p = 1 / 2\<rparr>, \<lparr>tick_t = 150, tick_p = 99 / 100\<rparr>],
          [\<lparr>tick_t = 100, tick_p = 975 / 1000\<rparr>]]
       = Inr (Some \<lparr>side = Str ''Down'', side_idx = 1, price = 975 / 1000, time = 100\<rparr>)"
proof -
  have ha: "first_hit [\<lparr>tick_t = 100, tick_p = 975 / 1000\<rparr>]
      = Some \<lparr>tick_t = 100, tick_p = 975 / 1000\<rparr>"
    by (simp add: first_hit_def THRESHOLD_def)
  have hb: "first_hit [\<lparr>tick_t = 90, tick_p = 1 / 2\<rparr>, \<lparr>tick_t = 150, tick_p = 99 / 100\<rparr>]
      = Some \<lparr>tick_t = 150, tick_p = 99 / 100\<rparr>"
    by (simp add: first_hit_def THRESHOLD_def)
  show ?thesis
    using C1_earlier_side_wins [OF ha hb, of "Str ''Down''" "Str ''Up''"] ha hb by simp
qed

text \<open>
  C2. On a market's two sides the loops leave no trigger exactly when every tick of both
  sides is strictly below the threshold, and they never raise. A tick at exactly the
  threshold qualifies, and a side with no ticks counts as a side with no qualifying tick:
  the result is then the other side's first qualifying tick, if it has one.
\<close>

theorem C2_no_trigger_iff_all_below:
  "(find_trigger [o0, o1] [h0, h1] = Inr None
      \<longleftrightarrow> (\<forall>p \<in> set h0 \<union> set h1. tick_p p < THRESHOLD))
   \<and> (\<exists>r. find_trigger [o0, o1] [h0, h1] = Inr r)
   \<and> (q \<in> set h0 \<union> set h1 \<longrightarrow> tick_p q = THRESHOLD
        \<longrightarrow> (\<exists>tr. find_trigger [o0, o1] [h0, h1] = Inr (Some tr)))
   \<and> find_trigger [o0, o1] [[], h1] =
        Inr (case first_hit h1 of None \<Rightarrow> None
             | Some b \<Rightarrow> Some \<lparr>side = o1, side_idx = 1, price = tick_p b, time = tick_t b\<rparr>)
   \<and> find_trigger [o0, o1] [h0, []] =
        Inr (case first_hit h0 of None \<Rightarrow> None
             | Some a \<Rightarrow> Some \<lparr>side = o0, side_idx = 0, price = tick_p a, time = tick_t a\<rparr>)"
proof -
  have none_iff: "find_trigger [o0, o1] [h0, h1] = Inr None
      \<longleftrightarrow> first_hit h0 = None \<and> first_hit h1 = None"
    by (simp add: find_trigger_two_sides split: option.splits)
  have iff: "find_trigger [o0, o1] [h0, h1] = Inr None
      \<longleftrightarrow> (\<forall>p \<in> set h0 \<union> set h1. tick_p p < THRESHOLD)"
    unfolding none_iff first_hit_None_iff by blast
  have total: "\<exists>r. find_trigger [o0, o1] [h0, h1] = Inr r"
    by (simp add: find_trigger_two_sides)
  have boundary: "q \<in> set h0 \<union> set h1 \<longrightarrow> tick_p q = THRESHOLD
      \<longrightarrow> (\<exists>tr. find_trigger [o0, o1] [h0, h1] = Inr (Some tr))"
  proof (intro impI)
    assume "q \<in> set h0 \<union> set h1" and "tick_p q = THRESHOLD"
    then have "\<not> (\<forall>p \<in> set h0 \<union> set h1. tick_p p < THRESHOLD)"
      by force
    with iff have "find_trigger [o0, o1] [h0, h1] \<noteq> Inr None" by simp
    with total show "\<exists>tr. find_trigger [o0, o1] [h0, h1] = Inr (Some tr)"
      by (metis not_Some_eq)
  qed
  have e0: "first_hit [] = None" by (simp add: first_hit_def)
  have left: "find_trigger [o0, o1] [[], h1] =
        Inr (case first_hit h1 of None \<Rightarrow> None
             | Some b \<Rightarrow> Some \<lparr>side = o1, side_idx = 1, price = tick_p b, time = tick_t b\<rparr>)"
    by (simp add: find_trigger_two_sides e0)
  have right: "find_trigger [o0, o1] [h0, []] =
        Inr (case first_hit h0 of None \<Rightarrow> None
             | Some a \<Rightarrow> Some \<lparr>side = o0, side_idx = 0, price = tick_p a, time = tick_t a\<rparr>)"
    by (simp add: find_trigger_two_sides e0 split: option.splits)
  from iff total boundary left right show ?thesis by blast
qed

theorem C2_no_trigger_iff_all_below_witness:
  "find_trigger [Str ''Up'', Str ''Down'']
      [[\<lparr>tick_t = 10, tick_p = 1 / 2\<rparr>, \<lparr>tick_t = 20, tick_p = 96 / 100\<rparr>],
       [\<lparr>tick_t = 10, tick_p = 1 / 2\<rparr>]] = Inr None
   \<and> (\<exists>tr. find_trigger [Str ''Up'', Str ''Down'']
      [[\<lparr>tick_t = 10, tick_p = 1 / 2\<rparr>, \<lparr>tick_t = 20, tick_p = THRESHOLD\<rparr>], []] = Inr (Some tr))
   \<and> find_trigger [Str ''Up'', Str ''Down''] [[], [\<lparr>tick_t = 30, tick_p = 98 / 100\<rparr>]] =
        Inr (Some \<lparr>side = Str ''Down'', side_idx = 1, price = 98 / 100, time = 30\<rparr>)"
proof -
  have below: "find_trigger [Str ''Up'', Str ''Down'']
      [[\<lparr>tick_t = 10, tick_p = 1 / 2\<rparr>, \<lparr>tick_t = 20, tick_p = 96 / 100\<rparr>],
       [\<lparr>tick_t = 10, tick_p = 1 / 2\<rparr>]] = Inr None"
    using C2_no_trigger_iff_all_below [of "Str ''Up''" "Str ''Down''"
        "[\<lparr>tick_t = 10, tick_p = 1 / 2\<rparr>, \<lparr>tick_t = 20, tick_p = 96 / 100\<rparr>]"
        "[\<lparr>tick_t = 10, tick_p = 1 / 2\<rparr>]"]
    by (simp add: THRESHOLD_def)
  have at: "\<exists>tr. find_trigger [Str ''Up'', Str ''Down'']
      [[\<lparr>tick_t = 10, tick_p = 1 / 2\<rparr>, \<lparr>tick_t = 20, tick_p = THRESHOLD\<rparr>], []] = Inr (Some tr)"
    using C2_no_trigger_iff_all_below [of "Str ''Up''" "Str ''Down''"
        "[\<lparr>tick_t = 10, tick_p = 1 / 2\<rparr>, \<lparr>tick_t = 20, tick_p = THRESHOLD\<rparr>]" "[]"
        "\<lparr>tick_t = 20, tick_p = THRESHOLD\<rparr>"]
    by (simp add: first_hit_def THRESHOLD_def)
  have empty: "find_trigger [Str ''Up'', Str ''Down''] [[], [\<lparr>tick_t = 30, tick_p = 98 / 100\<rparr>]] =
        Inr (Some \<lparr>side = Str ''Down'', side_idx = 1, price = 98 / 100, time = 30\<rparr>)"
    using C2_no_trigger_iff_all_below [of "Str ''Up''" "Str ''Down''" "[]"
        "[\<lparr>tick_t = 30, tick_p = 98 / 100\<rparr>]"]
    by (simp add: first_hit_def THRESHOLD_def)
  from below at empty show ?thesis by blast
qed

text \<open>
  C9. When both sides have a first qualifying tick, the second side replaces the first
  only if its tick is strictly earlier. So when the two ticks carry the same time, the
  trigger is the side at index 0, the first listed outcome.
\<close>

theorem C9_tie_keeps_first_side:
  assumes "first_hit h0 = Some a" and "first_hit h1 = Some b"
  shows "(tick_t a = tick_t b \<longrightarrow>
            find_trigger [o0, o1] [h0, h1] =
              Inr (Some \<lparr>side = o0, side_idx = 0, price = tick_p a, time = tick_t a\<rparr>))
       \<and> find_trigger [o0, o1] [h0, h1] =
            Inr (Some (if tick_t b < tick_t a
               then \<lparr>side = o1, side_idx = 1, price = tick_p b, time = tick_t b\<rparr>
               else \<lparr>side = o0, side_idx = 0, price = tick_p a, time = tick_t a\<rparr>))"
  using assms by (simp add: find_trigger_two_sides)

theorem C9_tie_keeps_first_side_witness:
  "first_hit [\<lparr>tick_t = 100, tick_p = 98 / 100\<rparr>] = Some \<lparr>tick_t = 100, tick_p = 98 / 100\<rparr>
   \<and> first_hit [\<lparr>tick_t = 100, tick_p = 99 / 100\<rparr>] = Some \<lparr>tick_t = 100, tick_p = 99 / 100\<rparr>
   \<and> find_trigger [Str ''Up'', Str ''Down'']
        [[\<lparr>tick_t = 100, tick_p = 98 / 100\<rparr>], [\<lparr>tick_t = 100, tick_p = 99 / 100\<rparr>]] =
       Inr (Some \<lparr>side = Str ''Up'', side_idx = 0, price = 98 / 100, time = 100\<rparr>)"
proof -
  have ha: "first_hit [\<lparr>tick_t = 100, tick_p = 98 / 100\<rparr>] = Some \<lparr>tick_t = 100, tick_p = 98 / 100\<rparr>"
    by (simp add: first_hit_def THRESHOLD_def)
  have hb: "first_hit [\<lparr>tick_t = 100, tick_p = 99 / 100\<rparr>] = Some \<lparr>tick_t = 100, tick_p = 99 / 100\<rparr>"
    by (simp add: first_hit_def THRESHOLD_def)
  show ?thesis
    using C9_tie_keeps_first_side [OF ha hb, of "Str ''Up''" "Str ''Down''"] ha hb by simp
qed

subsection \<open>Properties of the settlement\<close>

lemma settle_eq:
  "settle trg w =
     (side trg = py_value w,
      if side trg = py_value w then fl (fl (1 - price trg) - FEE) else - fl (price trg + FEE))"
  by (auto simp: settle_def pnl_of_def)

lemma make_trade_won: "won (make_trade m trg e) \<longleftrightarrow> side trg = py_value (resolved_outcome m)"
  by (simp add: make_trade_def settle_eq Let_def)

lemma make_trade_pnl:
  "pnl (make_trade m trg e) =
     py_round4 (if side trg = py_value (resolved_outcome m)
                then fl (fl (1 - price trg) - FEE) else - fl (price trg + FEE))"
  by (simp add: make_trade_def settle_eq Let_def)







subsection \<open>Properties of the market loop\<close>

lemma parse_sides_Json:
  "clobTokenIds m = Json token_ids \<Longrightarrow> outcomes m = Json outs \<Longrightarrow>
   parse_sides m = Inr (token_ids, outs)"
  by (simp add: parse_sides_def)

text \<open>
  C6. A market whose token list or outcome list parses to something other than two
  elements only increments \<open>skipped\<close>: the trades and the requests sent are unchanged
  (no fetch, no trigger, no trade), whatever the price source and the date parser are,
  and the loop goes on with the next market.
\<close>

theorem C6_wrong_side_count_skipped:
  assumes "clobTokenIds m = Json token_ids" and "outcomes m = Json outs"
    and "length token_ids \<noteq> 2 \<or> length outs \<noteq> 2"
  shows "process_market prices fromisoformat st m = Inr (st\<lparr>skipped := skipped st + 1\<rparr>)
       \<and> trades (st\<lparr>skipped := skipped st + 1\<rparr>) = trades st
       \<and> requests (st\<lparr>skipped := skipped st + 1\<rparr>) = requests st
       \<and> run_loop prices fromisoformat st (m # ms) =
           run_loop prices fromisoformat (st\<lparr>skipped := skipped st + 1\<rparr>) ms"
proof -
  have "process_market prices fromisoformat st m = Inr (st\<lparr>skipped := skipped st + 1\<rparr>)"
    using assms(3) by (simp add: process_market_def parse_sides_Json [OF assms(1) assms(2)])
  then show ?thesis by simp
qed

theorem C6_wrong_side_count_skipped_witness:
  "process_market (\<lambda>tid s e. Inl HTTPError) (\<lambda>s. Inl ValueError)
      \<lparr>trades = [], skipped = 4, requests = []\<rparr>
      \<lparr>slug = ''btc-updown-15m-1'', closed_flag = True,
       clobTokenIds = Json [''a'', ''b'', ''c''], outcomes = Json [Str ''Up'', Str ''Down''],
       outcomePrices = Json [Some 1, Some 0], endDate = Some ''2026-01-01T00:15:00Z''\<rparr>
     = Inr \<lparr>trades = [], skipped = 5, requests = []\<rparr>
   \<and> run_loop (\<lambda>tid s e. Inl HTTPError) (\<lambda>s. Inl ValueError)
      \<lparr>trades = [], skipped = 4, requests = []\<rparr>
      [\<lparr>slug = ''btc-updown-15m-1'', closed_flag = True,
        clobTokenIds = Json [''a'', ''b'', ''c''], outcomes = Json [Str ''Up'', Str ''Down''],
        outcomePrices = Json [Some 1, Some 0], endDate = Some ''2026-01-01T00:15:00Z''\<rparr>,
       \<lparr>slug = ''btc-updown-15m-2'', closed_flag = True,
        clobTokenIds = Json [''a'', ''b''], outcomes = Json [Str ''Up''],
        outcomePrices = Json [Some 1], endDate = None\<rparr>]
     = Inr \<lparr>trades = [], skipped = 6, requests = []\<rparr>"
proof -
  let ?P = "\<lambda>(tid :: string) (s :: int) (e :: int). (Inl HTTPError :: py_error + tick list)"
  let ?F = "\<lambda>s :: string. (Inl ValueError :: py_error + int)"
  let ?m1 = "\<lparr>slug = ''btc-updown-15m-1'', closed_flag = True,
       clobTokenIds = Json [''a'', ''b'', ''c''], outcomes = Json [Str ''Up'', Str ''Down''],
       outcomePrices = Json [Some 1, Some 0], endDate = Some ''2026-01-01T00:15:00Z''\<rparr>"
  let ?m2 = "\<lparr>slug = ''btc-updown-15m-2'', closed_flag = True,
        clobTokenIds = Json [''a'', ''b''], outcomes = Json [Str ''Up''],
        outcomePrices = Json [Some 1], endDate = None\<rparr>"
  have one: "process_market ?P ?F \<lparr>trades = [], skipped = 4, requests = []\<rparr> ?m1
      = Inr \<lparr>trades = [], skipped = 5, requests = []\<rparr>"
    and step1: "run_loop ?P ?F \<lparr>trades = [], skipped = 4, requests = []\<rparr> [?m1, ?m2]
      = run_loop ?P ?F \<lparr>trades = [], skipped = 5, requests = []\<rparr> [?m2]"
    using C6_wrong_side_count_skipped [of ?m1 "[''a'', ''b'', ''c'']" "[Str ''Up'', Str ''Down'']"
        ?P ?F "\<lparr>trades = [], skipped = 4, requests = []\<rparr>" "[?m2]"]
    by simp_all
  have step2: "run_loop ?P ?F \<lparr>trades = [], skipped = 5, requests = []\<rparr> [?m2]
      = run_loop ?P ?F \<lparr>trades = [], skipped = 6, requests = []\<rparr> []"
    using C6_wrong_side_count_skipped [of ?m2 "[''a'', ''b'']" "[Str ''Up'']"
        ?P ?F "\<lparr>trades = [], skipped = 5, requests = []\<rparr>" "[]"]
    by simp
  from one step1 step2 show ?thesis by simp
qed

subsection \<open>Properties of the summary\<close>

text \<open>
  C7. With no trades the summary raises nothing: both divisions are by \<open>max(1, n) = 1\<close>,
  the win rate is 0 percent and the average PnL is 0; the total PnL and the average time
  to expiry are not computed.
\<close>

theorem C7_empty_trades_summary:
  "summarize n_closed (st\<lparr>trades := []\<rparr>) =
     Inr \<lparr>markets_scanned = n_closed, skipped_bad = skipped st, n_trades = 0, n_wins = 0,
          win_rate = 0, avg_pnl = 0, total_pnl = None, avg_tte = None\<rparr>"
  by (simp add: summarize_def py_div_def wins_of_def)

text \<open>
  The float \<open>1 - FEE\<close> is the float 0.98, and at that price the win payoff is
  \<open>5 / 2^58\<close>, about \<open>1.73e-17\<close>.
\<close>

lemma one_minus_FEE: "fl (1 - FEE) = 2206763817411543 / 2251799813685248"
  by (subst fl_eval [of "- 1"]) (simp_all add: fl_value FEE_def)

lemma win_payoff_at_098:
  "fl (fl (1 - 2206763817411543 / 2251799813685248) - FEE) = 5 / 288230376151711744"
proof -
  have a: "fl (1 - 2206763817411543 / 2251799813685248) = 1 - 2206763817411543 / 2251799813685248"
    by (subst fl_eval [of "- 6"]) (simp_all add: fl_value)
  show ?thesis
    unfolding a by (subst fl_eval [of "- 56"]) (simp_all add: fl_value FEE_def)
qed

lemma win_payoff_bound:
  assumes "fl (1 - FEE) \<le> p"
  shows "fl (fl (1 - p) - FEE) \<le> 5 / 288230376151711744"
proof -
  from assms have "1 - p \<le> 1 - 2206763817411543 / 2251799813685248"
    by (simp add: one_minus_FEE)
  then have "fl (1 - p) \<le> fl (1 - 2206763817411543 / 2251799813685248)" by (rule fl_mono)
  then have "fl (1 - p) - FEE \<le> fl (1 - 2206763817411543 / 2251799813685248) - FEE" by simp
  then have "fl (fl (1 - p) - FEE) \<le> fl (fl (1 - 2206763817411543 / 2251799813685248) - FEE)"
    by (rule fl_mono)
  then show ?thesis by (simp only: win_payoff_at_098)
qed

lemma py_round4_small: "x \<le> 5 / 288230376151711744 \<Longrightarrow> py_round4 x \<le> 0"
proof -
  assume "x \<le> 5 / 288230376151711744"
  then have "x * 10000 \<le> 50000 / 288230376151711744" by simp
  then have "round_half_even (x * 10000) \<le> round_half_even (50000 / 288230376151711744)"
    by (rule rhe_mono)
  also have "round_half_even (50000 / 288230376151711744) = 0"
    by (simp add: fl_value)
  finally have "(of_int (round_half_even (x * 10000)) :: rat) / 10000 \<le> 0"
    by (simp add: divide_le_0_iff)
  then have "fl (of_int (round_half_even (x * 10000)) / 10000) \<le> fl 0" by (rule fl_mono)
  then show ?thesis by (simp add: py_round4_def fl_0)
qed

text \<open>
  C10. As stated the claim fails: at the float 0.98, for which \<open>p >= 1 - FEE\<close> holds
  in the code's arithmetic, the PnL \<open>1 - p - FEE\<close> is \<open>5 / 2^58\<close>, which is positive.
  What holds: a trade entered at \<open>p \<ge> 1 - FEE\<close> on the side that then wins has
  \<open>won\<close> set; its PnL is at most \<open>5 / 2^58\<close>, and the PnL of the record, rounded by
  \<open>round(pnl, 4)\<close>, is not positive. The summary counts as wins the trades with
  \<open>pnl > 0\<close>, so appending this trade leaves the win count as it was while the
  number of trades flagged \<open>won\<close> grows by one.
\<close>

theorem C10_won_flag_without_positive_pnl:
  assumes "fl (1 - FEE) \<le> price trg" and "resolved_outcome m = Some (side trg)"
  shows "won (make_trade m trg e)
       \<and> snd (settle trg (resolved_outcome m)) = fl (fl (1 - price trg) - FEE)
       \<and> snd (settle trg (resolved_outcome m)) \<le> 5 / 288230376151711744
       \<and> pnl (make_trade m trg e) = py_round4 (fl (fl (1 - price trg) - FEE))
       \<and> pnl (make_trade m trg e) \<le> 0
       \<and> wins_of (ts @ [make_trade m trg e]) = wins_of ts
       \<and> length (filter won (ts @ [make_trade m trg e])) = Suc (length (filter won ts))"
proof -
  have v: "side trg = py_value (resolved_outcome m)"
    using assms(2) by (simp add: py_value_def)
  have w: "won (make_trade m trg e)"
    using v by (simp add: make_trade_won)
  have eq: "snd (settle trg (resolved_outcome m)) = fl (fl (1 - price trg) - FEE)"
    using v by (simp add: settle_eq)
  have le: "fl (fl (1 - price trg) - FEE) \<le> 5 / 288230376151711744"
    using assms(1) by (rule win_payoff_bound)
  have peq: "pnl (make_trade m trg e) = py_round4 (fl (fl (1 - price trg) - FEE))"
    using v by (simp add: make_trade_pnl)
  with le have p: "pnl (make_trade m trg e) \<le> 0"
    by (simp add: py_round4_small)
  then have "wins_of (ts @ [make_trade m trg e]) = wins_of ts"
    by (simp add: wins_of_def)
  with w eq le peq p show ?thesis by simp
qed

text \<open>
  The input that refutes C10 as stated: a trigger at the float 0.98 on the side that
  wins. \<open>p >= 1 - FEE\<close> holds, the trade is a win and its PnL is positive.
\<close>

theorem C10_positive_pnl_counterexample:
  "fl (1 - FEE) \<le> price \<lparr>side = Str ''Up'', side_idx = 0,
       price = 2206763817411543 / 2251799813685248, time = 100\<rparr>
   \<and> fst (settle \<lparr>side = Str ''Up'', side_idx = 0,
       price = 2206763817411543 / 2251799813685248, time = 100\<rparr> (Some (Str ''Up'')))
   \<and> snd (settle \<lparr>side = Str ''Up'', side_idx = 0,
       price = 2206763817411543 / 2251799813685248, time = 100\<rparr> (Some (Str ''Up'')))
       = 5 / 288230376151711744
   \<and> 0 < snd (settle \<lparr>side = Str ''Up'', side_idx = 0,
       price = 2206763817411543 / 2251799813685248, time = 100\<rparr> (Some (Str ''Up'')))"
  using win_payoff_at_098 by (simp add: one_minus_FEE settle_eq py_value_def)

theorem C10_won_flag_without_positive_pnl_witness:
  "fl (1 - FEE) \<le> price \<lparr>side = Str ''Up'', side_idx = 0, price = 1, time = 100\<rparr>
   \<and> resolved_outcome
        \<lparr>slug = ''btc-updown-15m-1'', closed_flag = True, clobTokenIds = Json [''a'', ''b''],
         outcomes = Json [Str ''Up'', Str ''Down''], outcomePrices = Json [Some 1, Some 0],
         endDate = Some ''2026-01-01T00:15:00Z''\<rparr> = Some (Str ''Up'')
   \<and> won (make_trade
        \<lparr>slug = ''btc-updown-15m-1'', closed_flag = True, clobTokenIds = Json [''a'', ''b''],
         outcomes = Json [Str ''Up'', Str ''Down''], outcomePrices = Json [Some 1, Some 0],
         endDate = Some ''2026-01-01T00:15:00Z''\<rparr>
        \<lparr>side = Str ''Up'', side_idx = 0, price = 1, time = 100\<rparr> 900)
   \<and> pnl (make_trade
        \<lparr>slug = ''btc-updown-15m-1'', closed_flag = True, clobTokenIds = Json [''a'', ''b''],
         outcomes = Json [Str ''Up'', Str ''Down''], outcomePrices = Json [Some 1, Some 0],
         endDate = Some ''2026-01-01T00:15:00Z''\<rparr>
        \<lparr>side = Str ''Up'', side_idx = 0, price = 1, time = 100\<rparr> 900) \<le> 0
   \<and> wins_of [make_trade
        \<lparr>slug = ''btc-updown-15m-1'', closed_flag = True, clobTokenIds = Json [''a'', ''b''],
         outcomes = Json [Str ''Up'', Str ''Down''], outcomePrices = Json [Some 1, Some 0],
         endDate = Some ''2026-01-01T00:15:00Z''\<rparr>
        \<lparr>side = Str ''Up'', side_idx = 0, price = 1, time = 100\<rparr> 900] = []"
proof -
  let ?m = "\<lparr>slug = ''btc-updown-15m-1'', closed_flag = True, clobTokenIds = Json [''a'', ''b''],
         outcomes = Json [Str ''Up'', Str ''Down''], outcomePrices = Json [Some 1, Some 0],
         endDate = Some ''2026-01-01T00:15:00Z''\<rparr>"
  let ?trg = "\<lparr>side = Str ''Up'', side_idx = 0, price = 1, time = 100\<rparr>"
  have h1: "fl (1 - FEE) \<le> price ?trg" by (simp add: one_minus_FEE)
  have h2: "resolved_outcome ?m = Some (side ?trg)"
    by (simp add: resolved_outcome_def resolved_outcome_try_def py_max_index_def
        index_def py_float_def CONFIDENCE_BOUND_def)
  from C10_won_flag_without_positive_pnl [OF h1 h2, of 900 "[]"] h1 h2
  show ?thesis by (simp add: wins_of_def)
qed

subsection \<open>Properties of resolved\_outcome\<close>

lemma floats_Some: "floats (map Some ks) = Inr ks"
  by (induction ks) (simp_all add: py_float_def)

lemma floats_None: "None \<in> set prices \<Longrightarrow> \<exists>e. floats prices = Inl e"
  by (induction prices) (auto simp: py_float_def split: option.splits sum.splits)

lemma first_max_less: "ks \<noteq> [] \<Longrightarrow> first_max ks < length ks"
proof -
  assume "ks \<noteq> []"
  then have "Max (set ks) \<in> set ks" by (simp add: Max_in)
  then have "takeWhile (\<lambda>k. k \<noteq> Max (set ks)) ks \<noteq> ks"
    by (auto simp: takeWhile_eq_all_conv)
  moreover have "length (takeWhile (\<lambda>k. k \<noteq> Max (set ks)) ks) \<le> length ks"
    by (rule length_takeWhile_le)
  moreover have "length (takeWhile (\<lambda>k. k \<noteq> Max (set ks)) ks) = length ks
      \<Longrightarrow> takeWhile (\<lambda>k. k \<noteq> Max (set ks)) ks = ks"
    by (metis takeWhile_eq_take take_all order_refl)
  ultimately show ?thesis
    unfolding first_max_def by (meson le_neq_implies_less)
qed

lemma first_max_nth: "ks \<noteq> [] \<Longrightarrow> ks ! first_max ks = Max (set ks)"
  using first_max_less [of ks] nth_length_takeWhile [of "\<lambda>k. k \<noteq> Max (set ks)" ks]
  by (simp add: first_max_def)

lemma first_max_before: "j < first_max ks \<Longrightarrow> ks ! j < Max (set ks)"
proof -
  assume j: "j < first_max ks"
  let ?P = "\<lambda>k. k \<noteq> Max (set ks)"
  from j have jt: "j < length (takeWhile ?P ks)" by (simp add: first_max_def)
  then have "takeWhile ?P ks ! j \<in> set (takeWhile ?P ks)" by (rule nth_mem)
  then have "?P (takeWhile ?P ks ! j)" by (rule set_takeWhileD [THEN conjunct2])
  moreover have eq: "takeWhile ?P ks ! j = ks ! j" using jt by (rule takeWhile_nth)
  ultimately have ne: "ks ! j \<noteq> Max (set ks)" by simp
  have "j < length ks" using jt length_takeWhile_le [of ?P ks] by linarith
  then have "ks ! j \<le> Max (set ks)" by simp
  with ne show ?thesis by simp
qed

lemma first_max_Cons_later:
  assumes "\<exists>x \<in> set ks. k < x"
  shows "first_max (k # ks) = Suc (first_max ks)"
proof -
  from assms obtain x where x: "x \<in> set ks" "k < x" by blast
  then have ne: "set ks \<noteq> {}" by auto
  have "x \<le> Max (set ks)" using x(1) by simp
  with x(2) have lt: "k < Max (set ks)" by simp
  have "Max (set (k # ks)) = max k (Max (set ks))"
    using ne by (simp add: Max_insert)
  with lt have M: "Max (set (k # ks)) = Max (set ks)" by (simp add: max_def)
  show ?thesis
    unfolding first_max_def M using lt by simp
qed

lemma first_max_Cons_head:
  assumes "\<forall>x \<in> set ks. x \<le> k"
  shows "first_max (k # ks) = 0"
proof -
  have "Max (set (k # ks)) = k"
    using assms by (intro Max_eqI) auto
  then show ?thesis by (simp add: first_max_def)
qed

lemma max_from_first_max:
  "max_from ks best bi i = (if \<exists>x \<in> set ks. best < x then i + first_max ks else bi)"
proof (induction ks arbitrary: best bi i)
  case Nil
  then show ?case by simp
next
  case (Cons k ks)
  show ?case
  proof (cases "best < k")
    case True
    note bk = this
    show ?thesis
    proof (cases "\<exists>x \<in> set ks. k < x")
      case True
      with bk Cons [of k i "Suc i"] show ?thesis
        by (simp add: first_max_Cons_later)
    next
      case False
      then have "\<forall>x \<in> set ks. x \<le> k" by (simp add: not_less)
      then have "first_max (k # ks) = 0" by (rule first_max_Cons_head)
      with bk False Cons [of k i "Suc i"] show ?thesis by simp
    qed
  next
    case False
    note nbk = this
    show ?thesis
    proof (cases "\<exists>x \<in> set ks. best < x")
      case True
      with nbk have "\<exists>x \<in> set ks. k < x" by (metis not_less order_le_less_trans)
      then have "first_max (k # ks) = Suc (first_max ks)" by (rule first_max_Cons_later)
      with nbk True Cons [of best bi "Suc i"] show ?thesis by simp
    next
      case False
      with nbk Cons [of best bi "Suc i"] show ?thesis by simp
    qed
  qed
qed

lemma py_max_index_first_max:
  "ks \<noteq> [] \<Longrightarrow> py_max_index (map Some ks) = Inr (first_max ks)"
proof -
  assume "ks \<noteq> []"
  then obtain k ks' where ks: "ks = k # ks'" by (cases ks) auto
  show ?thesis
  proof (cases "\<exists>x \<in> set ks'. k < x")
    case True
    then show ?thesis
      unfolding ks py_max_index_def floats_Some
      by (simp add: max_from_first_max first_max_Cons_later)
  next
    case False
    then have "\<forall>x \<in> set ks'. x \<le> k" by (simp add: not_less)
    then have "first_max (k # ks') = 0" by (rule first_max_Cons_head)
    with False show ?thesis
      unfolding ks py_max_index_def floats_Some
      by (simp add: max_from_first_max)
  qed
qed

lemma resolved_outcome_parsed:
  assumes "loads_get (outcomes m) = Inr outs"
    and "loads_get (outcomePrices m) = Inr (map Some ks)"
    and "outs \<noteq> []" and "ks \<noteq> []"
  shows "resolved_outcome m =
     (if CONFIDENCE_BOUND < Max (set ks) \<and> first_max ks < length outs
      then Some (outs ! first_max ks) else None)"
proof -
  have i: "py_max_index (map Some ks) = Inr (first_max ks)"
    using assms(4) by (rule py_max_index_first_max)
  have x: "index (map Some ks) (first_max ks) = Inr (Some (Max (set ks)))"
    using first_max_less [OF assms(4)] first_max_nth [OF assms(4)] by (simp add: index_def)
  have o: "index outs (first_max ks) =
      (if first_max ks < length outs then Inr (outs ! first_max ks) else Inl IndexError)"
    by (simp add: index_def)
  show ?thesis
    unfolding resolved_outcome_def resolved_outcome_try_def
    using assms(3,4) by (simp add: assms(1,2) i x o py_float_def)
qed

lemma resolved_outcome_undefined:
  "loads_get (outcomes m) = Inr [] \<Longrightarrow> resolved_outcome m = None"
  "loads_get (outcomePrices m) = Inr [] \<Longrightarrow> resolved_outcome m = None"
  "loads_get (outcomes m) = Inl e \<Longrightarrow> resolved_outcome m = None"
  "loads_get (outcomePrices m) = Inl e \<Longrightarrow> resolved_outcome m = None"
  by (simp_all add: resolved_outcome_def resolved_outcome_try_def split: sum.splits)

lemma resolved_outcome_bad_price:
  assumes "loads_get (outcomePrices m) = Inr prices" and "None \<in> set prices"
  shows "resolved_outcome m = None"
proof -
  from floats_None [OF assms(2)] obtain e where "floats prices = Inl e" by blast
  then have "py_max_index prices = Inl e" by (simp add: py_max_index_def)
  then show ?thesis
    unfolding resolved_outcome_def resolved_outcome_try_def
    by (simp add: assms(1) split: sum.splits)
qed

text \<open>
  C4. As stated the claim fails: the winner is the label at the index of the maximum only
  if the label list reaches that index, and a list too short to reach it gives no winner
  although the maximum exceeds 0.9 (the IndexError is swallowed like every other
  exception). What holds: when both lists parse, are not empty and every price converts,
  the result is the label at the first index of the maximum exactly when the maximum
  exceeds 0.9 and the label list has that index, and no winner otherwise; an empty or
  missing list, a list that fails to parse or a price that does not convert give no
  winner. In every case the function returns; it never raises.
\<close>

theorem C4_resolved_outcome:
  "(loads_get (outcomes m) = Inr outs \<and> loads_get (outcomePrices m) = Inr (map Some ks)
      \<and> outs \<noteq> [] \<and> ks \<noteq> [] \<longrightarrow>
        first_max ks < length ks \<and> ks ! first_max ks = Max (set ks)
      \<and> (\<forall>j < first_max ks. ks ! j < Max (set ks))
      \<and> resolved_outcome m =
          (if CONFIDENCE_BOUND < Max (set ks) \<and> first_max ks < length outs
           then Some (outs ! first_max ks) else None))
   \<and> (loads_get (outcomes m) = Inr [] \<longrightarrow> resolved_outcome m = None)
   \<and> (loads_get (outcomePrices m) = Inr [] \<longrightarrow> resolved_outcome m = None)
   \<and> (loads_get (outcomes m) = Inl e \<longrightarrow> resolved_outcome m = None)
   \<and> (loads_get (outcomePrices m) = Inl e \<longrightarrow> resolved_outcome m = None)
   \<and> (loads_get (outcomePrices m) = Inr prices \<and> None \<in> set prices
        \<longrightarrow> resolved_outcome m = None)"
  using resolved_outcome_parsed [of m outs ks] first_max_less [of ks] first_max_nth [of ks]
    first_max_before [of _ ks] resolved_outcome_undefined [of m] resolved_outcome_undefined(3,4) [of m e]
    resolved_outcome_bad_price [of m prices]
  by blast

text \<open>
  The input that refutes C4 as stated: two labels (so that \<open>run\<close> accepts the market)
  and three prices, the greatest price last. The maximum 0.97 exceeds 0.9, its index 2
  is past the end of the labels, and the result is no winner.
\<close>

theorem C4_out_of_range_counterexample:
  "CONFIDENCE_BOUND < Max (set [1 / 100, 2 / 100, 97 / 100 :: rat])
   \<and> resolved_outcome
        \<lparr>slug = ''btc-updown-15m-1'', closed_flag = True, clobTokenIds = Json [''a'', ''b''],
         outcomes = Json [Str ''Up'', Str ''Down''],
         outcomePrices = Json [Some (1 / 100), Some (2 / 100), Some (97 / 100)],
         endDate = Some ''2026-01-01T00:15:00Z''\<rparr> = None"
  by (simp add: resolved_outcome_def resolved_outcome_try_def py_max_index_def
        index_def py_float_def CONFIDENCE_BOUND_def)

theorem C4_resolved_outcome_witness:
  "resolved_outcome
      \<lparr>slug = ''btc-updown-15m-1'', closed_flag = True, clobTokenIds = Json [''a'', ''b''],
       outcomes = Json [Str ''Up'', Str ''Down''], outcomePrices = Json [Some (98 / 100), Some (2 / 100)],
       endDate = Some ''2026-01-01T00:15:00Z''\<rparr> = Some (Str ''Up'')
   \<and> resolved_outcome
      \<lparr>slug = ''btc-updown-15m-2'', closed_flag = True, clobTokenIds = Json [''a'', ''b''],
       outcomes = Json [Str ''Up'', Str ''Down''], outcomePrices = Json [Some (1 / 2), Some (1 / 2)],
       endDate = Some ''2026-01-01T00:15:00Z''\<rparr> = None
   \<and> resolved_outcome
      \<lparr>slug = ''btc-updown-15m-3'', closed_flag = True, clobTokenIds = Json [''a'', ''b''],
       outcomes = Json [Str ''Up'', Str ''Down''], outcomePrices = Json [Some 1, None],
       endDate = Some ''2026-01-01T00:15:00Z''\<rparr> = None
   \<and> resolved_outcome
      \<lparr>slug = ''btc-updown-15m-4'', closed_flag = True, clobTokenIds = Json [''a'', ''b''],
       outcomes = Missing, outcomePrices = Malformed,
       endDate = Some ''2026-01-01T00:15:00Z''\<rparr> = None"
proof -
  let ?m1 = "\<lparr>slug = ''btc-updown-15m-1'', closed_flag = True, clobTokenIds = Json [''a'', ''b''],
       outcomes = Json [Str ''Up'', Str ''Down''], outcomePrices = Json [Some (98 / 100), Some (2 / 100)],
       endDate = Some ''2026-01-01T00:15:00Z''\<rparr>"
  let ?m2 = "\<lparr>slug = ''btc-updown-15m-2'', closed_flag = True, clobTokenIds = Json [''a'', ''b''],
       outcomes = Json [Str ''Up'', Str ''Down''], outcomePrices = Json [Some (1 / 2), Some (1 / 2)],
       endDate = Some ''2026-01-01T00:15:00Z''\<rparr>"
  let ?m3 = "\<lparr>slug = ''btc-updown-15m-3'', closed_flag = True, clobTokenIds = Json [''a'', ''b''],
       outcomes = Json [Str ''Up'', Str ''Down''], outcomePrices = Json [Some 1, None],
       endDate = Some ''2026-01-01T00:15:00Z''\<rparr>"
  let ?m4 = "\<lparr>slug = ''btc-updown-15m-4'', closed_flag = True, clobTokenIds = Json [''a'', ''b''],
       outcomes = Missing, outcomePrices = Malformed,
       endDate = Some ''2026-01-01T00:15:00Z''\<rparr>"
  have r1: "resolved_outcome ?m1 = Some (Str ''Up'')"
    using C4_resolved_outcome [of ?m1 "[Str ''Up'', Str ''Down'']" "[98 / 100, 2 / 100]"]
    by (simp add: first_max_def CONFIDENCE_BOUND_def)
  have r2: "resolved_outcome ?m2 = None"
    using C4_resolved_outcome [of ?m2 "[Str ''Up'', Str ''Down'']" "[1 / 2, 1 / 2]"]
    by (simp add: first_max_def CONFIDENCE_BOUND_def)
  have r3: "resolved_outcome ?m3 = None"
    using C4_resolved_outcome [of ?m3 _ _ _ "[Some 1, None]"]
    by simp
  have r4: "resolved_outcome ?m4 = None"
    using C4_resolved_outcome [of ?m4 _ _ JSONDecodeError]
    by simp
  from r1 r2 r3 r4 show ?thesis by blast
qed

subsection \<open>A timestamp that does not parse\<close>

text \<open>
  C5. The call \<open>iso_to_ts(m["endDate"])\<close> of line 113 stands outside every \<open>try\<close>.
  For a market with two tokens and two outcomes whose \<open>endDate\<close> the parser rejects,
  the iteration raises ValueError: the market is not counted as skipped, the markets after
  it are not processed and \<open>run\<close> ends with the exception before any summary. The
  claim (the market is skipped and the run continues) does not hold of the code.
\<close>

theorem C5_bad_timestamp_aborts_run:
  assumes "clobTokenIds m = Json [t0, t1]" and "outcomes m = Json [o0, o1]"
    and "endDate m = Some str" and "fromisoformat (replace_Z str) = Inl ValueError"
  shows "process_market prices fromisoformat st m = Inl ValueError
       \<and> run_loop prices fromisoformat st (m # ms) = Inl ValueError
       \<and> (closed_flag m \<longrightarrow> run (Inr (m # ms)) prices fromisoformat = Inl ValueError)"
proof -
  have "parse_sides m = Inr ([t0, t1], [o0, o1])"
    using assms(1,2) by (rule parse_sides_Json)
  then have one: "process_market prices fromisoformat st m = Inl ValueError" for st
    by (simp add: process_market_def iso_to_ts_def assms(3,4))
  then have "run_loop prices fromisoformat st (m # ms) = Inl ValueError" for st
    by simp
  with one show ?thesis by (simp add: run_def)
qed

theorem C5_bad_timestamp_aborts_run_witness:
  "run (Inr [\<lparr>slug = ''btc-updown-15m-1'', closed_flag = True, clobTokenIds = Json [''a'', ''b''],
              outcomes = Json [Str ''Up'', Str ''Down''], outcomePrices = Json [Some 1, Some 0],
              endDate = Some ''not-a-date''\<rparr>,
             \<lparr>slug = ''btc-updown-15m-2'', closed_flag = True, clobTokenIds = Json [''c'', ''d''],
              outcomes = Json [Str ''Up'', Str ''Down''], outcomePrices = Json [Some 0, Some 1],
              endDate = Some ''2026-01-01T00:15:00Z''\<rparr>])
       (\<lambda>tid s e. Inr [])
       (\<lambda>s. if s = ''2026-01-01T00:15:00+00:00'' then Inr 1767226500 else Inl ValueError)
     = Inl ValueError"
proof -
  let ?F = "\<lambda>s :: string. if s = ''2026-01-01T00:15:00+00:00'' then Inr (1767226500 :: int)
       else (Inl ValueError :: py_error + int)"
  let ?P = "\<lambda>(tid :: string) (s :: int) (e :: int). (Inr [] :: py_error + tick list)"
  let ?m1 = "\<lparr>slug = ''btc-updown-15m-1'', closed_flag = True, clobTokenIds = Json [''a'', ''b''],
              outcomes = Json [Str ''Up'', Str ''Down''], outcomePrices = Json [Some 1, Some 0],
              endDate = Some ''not-a-date''\<rparr>"
  have bad: "?F (replace_Z ''not-a-date'') = Inl ValueError"
    by (simp add: replace_Z_def)
  show ?thesis
    using C5_bad_timestamp_aborts_run [of ?m1 "''a''" "''b''" "Str ''Up''" "Str ''Down''"
        "''not-a-date''" ?F ?P _ _, OF _ _ _ bad]
    by simp
qed

subsection \<open>Further properties of the market loop and the summary\<close>

text \<open>
  A well-formed market (two tokens, two outcomes, a date that parses, both fetches
  answered) sends exactly two requests over the window of 900 seconds that ends at the
  parsed date; it appends one trade when there is a trigger and none otherwise, and it
  is never counted as skipped.
\<close>

theorem well_formed_market_processed:
  assumes "clobTokenIds m = Json [t0, t1]" and "outcomes m = Json [o0, o1]"
    and "endDate m = Some str" and "fromisoformat (replace_Z str) = Inr end_ts"
    and "prices t0 (end_ts - 900) end_ts = Inr h0"
    and "prices t1 (end_ts - 900) end_ts = Inr h1"
  shows "\<exists>r. find_trigger [o0, o1] [h0, h1] = Inr r
       \<and> process_market prices fromisoformat st m =
           Inr (let st' = st\<lparr>requests := requests st
                            @ [(t0, end_ts - 900, end_ts), (t1, end_ts - 900, end_ts)]\<rparr>
                in case r of
                     None \<Rightarrow> st'
                   | Some trg \<Rightarrow> st'\<lparr>trades := trades st @ [make_trade m trg end_ts]\<rparr>)"
proof -
  have p: "parse_sides m = Inr ([t0, t1], [o0, o1])"
    using assms(1,2) by (rule parse_sides_Json)
  have f: "fetch_hists prices [t0, t1] (end_ts - 900) end_ts = Inr [h0, h1]"
    by (simp add: assms(5,6))
  obtain r where r: "find_trigger [o0, o1] [h0, h1] = Inr r"
    using find_trigger_two_sides [of o0 o1 h0 h1] by blast
  have "process_market prices fromisoformat st m =
           Inr (let st' = st\<lparr>requests := requests st
                            @ [(t0, end_ts - 900, end_ts), (t1, end_ts - 900, end_ts)]\<rparr>
                in case r of
                     None \<Rightarrow> st'
                   | Some trg \<Rightarrow> st'\<lparr>trades := trades st @ [make_trade m trg end_ts]\<rparr>)"
    by (simp add: process_market_def p iso_to_ts_def assms(3,4) f r Let_def
        del: fetch_hists.simps split: option.splits)
  with r show ?thesis by blast
qed

text \<open>
  The first end-to-end scenario of the specification: outcomes Up and Down settled at
  0.98 and 0.02, Down reaching 0.975 at time 100 before Up reaches 0.99 at time 150
  (each number the float that its decimal denotes). The trade is Down at 0.975, a loss
  of 0.995.
\<close>

theorem well_formed_market_processed_witness:
  "process_market
      (\<lambda>tid s e. if tid = ''up''
                  then Inr [\<lparr>tick_t = 120, tick_p = 1 / 2\<rparr>, \<lparr>tick_t = 150, tick_p = fl (99 / 100)\<rparr>]
                  else Inr [\<lparr>tick_t = 100, tick_p = fl (975 / 1000)\<rparr>])
      (\<lambda>s. if s = ''2026-01-01T00:15:00+00:00'' then Inr 1000 else Inl ValueError)
      \<lparr>trades = [], skipped = 0, requests = []\<rparr>
      \<lparr>slug = ''btc-updown-15m-1'', closed_flag = True, clobTokenIds = Json [''up'', ''down''],
       outcomes = Json [Str ''Up'', Str ''Down''],
       outcomePrices = Json [Some (fl (98 / 100)), Some (fl (2 / 100))],
       endDate = Some ''2026-01-01T00:15:00Z''\<rparr>
   = Inr \<lparr>trades = [\<lparr>trade_slug = ''btc-updown-15m-1'', trade_side = Str ''Down'',
                       trade_price = fl (975 / 1000), winner = Str ''Up'', won = False,
                       pnl = - fl (995 / 1000), tte_secs = 900\<rparr>],
          skipped = 0,
          requests = [(''up'', 100, 1000), (''down'', 100, 1000)]\<rparr>"
proof -
  have v99: "fl (99 / 100) = 4458563631096791 / 4503599627370496"
    by (subst fl_eval [of "- 1"]) (simp_all add: fl_value)
  have v975: "fl (975 / 1000) = 8782019273372467 / 9007199254740992"
    by (subst fl_eval [of "- 1"]) (simp_all add: fl_value)
  have v995: "fl (995 / 1000) = 8962163258467287 / 9007199254740992"
    by (subst fl_eval [of "- 1"]) (simp_all add: fl_value)
  have v98: "fl (98 / 100) = 2206763817411543 / 2251799813685248"
    by (subst fl_eval [of "- 1"]) (simp_all add: fl_value)
  have sum: "fl (8782019273372467 / 9007199254740992 + FEE) = 8962163258467287 / 9007199254740992"
    by (subst fl_eval [of "- 1"]) (simp_all add: fl_value FEE_def)
  have rp: "py_round4 (8782019273372467 / 9007199254740992) = 8782019273372467 / 9007199254740992"
    unfolding py_round4_def by (subst fl_eval [of "- 1"]) (simp_all add: fl_value)
  have rl: "py_round4 (- (8962163258467287 / 9007199254740992))
      = - (8962163258467287 / 9007199254740992)"
    unfolding py_round4_def by (subst fl_eval [of "- 1"]) (simp_all add: fl_value)
  let ?P = "\<lambda>(tid :: string) (s :: int) (e :: int).
      if tid = ''up''
      then (Inr [\<lparr>tick_t = 120, tick_p = 1 / 2\<rparr>,
                 \<lparr>tick_t = 150, tick_p = 4458563631096791 / 4503599627370496\<rparr>] :: py_error + tick list)
      else Inr [\<lparr>tick_t = 100, tick_p = 8782019273372467 / 9007199254740992\<rparr>]"
  let ?F = "\<lambda>s :: string. if s = ''2026-01-01T00:15:00+00:00'' then Inr (1000 :: int)
      else (Inl ValueError :: py_error + int)"
  let ?m = "\<lparr>slug = ''btc-updown-15m-1'', closed_flag = True, clobTokenIds = Json [''up'', ''down''],
       outcomes = Json [Str ''Up'', Str ''Down''],
       outcomePrices = Json [Some (2206763817411543 / 2251799813685248), Some FEE],
       endDate = Some ''2026-01-01T00:15:00Z''\<rparr>"
  let ?h0 = "[\<lparr>tick_t = 120, tick_p = 1 / 2\<rparr>,
              \<lparr>tick_t = 150, tick_p = 4458563631096791 / 4503599627370496\<rparr>]"
  let ?h1 = "[\<lparr>tick_t = 100, tick_p = 8782019273372467 / 9007199254740992\<rparr>]"
  let ?st = "\<lparr>trades = [], skipped = 0, requests = []\<rparr>"
  let ?trg = "\<lparr>side = Str ''Down'', side_idx = 1,
       price = 8782019273372467 / 9007199254740992, time = 100\<rparr>"
  have d: "?F (replace_Z ''2026-01-01T00:15:00Z'') = Inr 1000"
    by (simp add: replace_Z_def)
  have trg: "find_trigger [Str ''Up'', Str ''Down''] [?h0, ?h1] = Inr (Some ?trg)"
    by (simp add: find_trigger_two_sides first_hit_def THRESHOLD_def)
  have w: "resolved_outcome ?m = Some (Str ''Up'')"
    by (simp add: resolved_outcome_def resolved_outcome_try_def py_max_index_def
        index_def py_float_def CONFIDENCE_BOUND_def FEE_def)
  have t: "make_trade ?m ?trg 1000 =
      \<lparr>trade_slug = ''btc-updown-15m-1'', trade_side = Str ''Down'',
       trade_price = 8782019273372467 / 9007199254740992, winner = Str ''Up'', won = False,
       pnl = - (8962163258467287 / 9007199254740992), tte_secs = 900\<rparr>"
    unfolding make_trade_def w
    by (simp add: settle_eq py_value_def sum rp rl)
  from well_formed_market_processed [of ?m "''up''" "''down''" "Str ''Up''" "Str ''Down''"
      "''2026-01-01T00:15:00Z''" ?F 1000 ?P ?h0 ?h1 ?st, OF _ _ _ d]
  obtain r where "find_trigger [Str ''Up'', Str ''Down''] [?h0, ?h1] = Inr r"
    and pm: "process_market ?P ?F ?st ?m =
       Inr (let st' = ?st\<lparr>requests := requests ?st @ [(''up'', 1000 - 900, 1000), (''down'', 1000 - 900, 1000)]\<rparr>
            in case r of None \<Rightarrow> st'
               | Some trg \<Rightarrow> st'\<lparr>trades := trades ?st @ [make_trade ?m trg 1000]\<rparr>)"
    by auto
  with trg have "r = Some ?trg" by simp
  with pm t have "process_market ?P ?F ?st ?m =
      Inr \<lparr>trades = [\<lparr>trade_slug = ''btc-updown-15m-1'', trade_side = Str ''Down'',
                       trade_price = 8782019273372467 / 9007199254740992, winner = Str ''Up'',
                       won = False, pnl = - (8962163258467287 / 9007199254740992),
                       tte_secs = 900\<rparr>],
          skipped = 0,
          requests = [(''up'', 100, 1000), (''down'', 100, 1000)]\<rparr>"
    by simp
  then show ?thesis
    unfolding v99 v975 v995 v98 FEE_literal [symmetric] .
qed

text \<open>
  Lines 96 to 102: a market whose \<open>clobTokenIds\<close> or \<open>outcomes\<close> is missing or does
  not parse is counted as skipped, and the loop goes on with the next market.
\<close>

theorem unparsable_sides_skipped:
  assumes "clobTokenIds m \<in> {Missing, Malformed} \<or> outcomes m \<in> {Missing, Malformed}"
  shows "process_market prices fromisoformat st m = Inr (st\<lparr>skipped := skipped st + 1\<rparr>)
       \<and> run_loop prices fromisoformat st (m # ms) =
           run_loop prices fromisoformat (st\<lparr>skipped := skipped st + 1\<rparr>) ms"
proof -
  have "\<exists>e. parse_sides m = Inl e"
    using assms by (cases "clobTokenIds m"; cases "outcomes m") (auto simp: parse_sides_def)
  then have "process_market prices fromisoformat st m = Inr (st\<lparr>skipped := skipped st + 1\<rparr>)"
    by (auto simp: process_market_def)
  then show ?thesis by simp
qed

theorem unparsable_sides_skipped_witness:
  "process_market (\<lambda>tid s e. Inl HTTPError) (\<lambda>s. Inl ValueError)
      \<lparr>trades = [], skipped = 0, requests = []\<rparr>
      \<lparr>slug = ''btc-updown-15m-1'', closed_flag = True, clobTokenIds = Malformed,
       outcomes = Json [Str ''Up'', Str ''Down''], outcomePrices = Json [Some 1, Some 0],
       endDate = Some ''not-a-date''\<rparr>
   = Inr \<lparr>trades = [], skipped = 1, requests = []\<rparr>"
  using unparsable_sides_skipped [of
      "\<lparr>slug = ''btc-updown-15m-1'', closed_flag = True, clobTokenIds = Malformed,
       outcomes = Json [Str ''Up'', Str ''Down''], outcomePrices = Json [Some 1, Some 0],
       endDate = Some ''not-a-date''\<rparr>"
      "\<lambda>tid s e. Inl HTTPError" "\<lambda>s. Inl ValueError"
      "\<lparr>trades = [], skipped = 0, requests = []\<rparr>"]
  by simp

text \<open>
  Lines 117 to 120: a price request that raises leaves \<open>run\<close> with the exception; the
  market is not counted as skipped and the markets after it are not processed.
\<close>

theorem failed_fetch_aborts_run:
  assumes "clobTokenIds m = Json [t0, t1]" and "outcomes m = Json [o0, o1]"
    and "endDate m = Some str" and "fromisoformat (replace_Z str) = Inr end_ts"
    and "prices t0 (end_ts - 900) end_ts = Inl e"
  shows "process_market prices fromisoformat st m = Inl e
       \<and> run_loop prices fromisoformat st (m # ms) = Inl e"
proof -
  have p: "parse_sides m = Inr ([t0, t1], [o0, o1])"
    using assms(1,2) by (rule parse_sides_Json)
  have "process_market prices fromisoformat st m = Inl e"
    by (simp add: process_market_def p iso_to_ts_def assms(3,4,5))
  then show ?thesis by simp
qed

theorem failed_fetch_aborts_run_witness:
  "run_loop (\<lambda>tid s e. Inl HTTPError)
      (\<lambda>s. if s = ''2026-01-01T00:15:00+00:00'' then Inr 1000 else Inl ValueError)
      \<lparr>trades = [], skipped = 0, requests = []\<rparr>
      [\<lparr>slug = ''btc-updown-15m-1'', closed_flag = True, clobTokenIds = Json [''up'', ''down''],
        outcomes = Json [Str ''Up'', Str ''Down''], outcomePrices = Json [Some 1, Some 0],
        endDate = Some ''2026-01-01T00:15:00Z''\<rparr>]
   = Inl HTTPError"
proof -
  let ?F = "\<lambda>s :: string. if s = ''2026-01-01T00:15:00+00:00'' then Inr (1000 :: int)
      else (Inl ValueError :: py_error + int)"
  have d: "?F (replace_Z ''2026-01-01T00:15:00Z'') = Inr 1000"
    by (simp add: replace_Z_def)
  show ?thesis
    using failed_fetch_aborts_run [of
      "\<lparr>slug = ''btc-updown-15m-1'', closed_flag = True, clobTokenIds = Json [''up'', ''down''],
        outcomes = Json [Str ''Up'', Str ''Down''], outcomePrices = Json [Some 1, Some 0],
        endDate = Some ''2026-01-01T00:15:00Z''\<rparr>"
      "''up''" "''down''" "Str ''Up''" "Str ''Down''" "''2026-01-01T00:15:00Z''" ?F 1000
      "\<lambda>tid s e. Inl HTTPError" HTTPError, OF _ _ _ d]
    by simp
qed

text \<open>
  The summary never raises: the first two divisors are \<open>max(1, n)\<close>, and the third,
  \<open>len(ttes)\<close>, is only used when there is a trade.
\<close>

theorem summarize_total: "\<exists>s. summarize n_closed st = Inr s"
  by (cases "trades st") (simp_all add: summarize_def py_div_def Let_def)

end
